theory Spec2Isabelle
  imports Complex_Main "HOL-Library.Char_ord" "HOL-Library.List_Lexorder"
begin

section \<open>The ledger: state\_manager.py\<close>

text \<open>
  \<^verbatim>\<open>StateManager\<close> keeps its state in an SQLite file. The two tables the pipeline
  works on are modelled as lists of rows in rowid order, together with the
  \<^verbatim>\<open>AUTOINCREMENT\<close> counter of each table. Every method opens a connection, runs its
  statements and commits, so a method is a function from the database before the call to
  the database after it. The reading of the wall clock
  (\<^verbatim>\<open>datetime.utcnow().isoformat()\<close>) is an argument \<open>now\<close> of each method that takes one;
  it is a text, and SQLite compares \<^verbatim>\<open>TEXT\<close> values bytewise, which is the lexicographic
  order on \<^typ>\<open>string\<close>.

  A \<^verbatim>\<open>file_info\<close> dictionary is an association list from keys to the JSON scalars the
  provider APIs deliver (texts and integers); \<^verbatim>\<open>file_info.get(k, d)\<close> is \<open>dict_get\<close>.
  The \<^verbatim>\<open>metadata\<close> column holds \<^verbatim>\<open>json.dumps(file_info)\<close> and is only ever read back
  through \<^verbatim>\<open>json.loads\<close>; the model stores the dictionary itself. A column holds the
  value that was bound to it.
\<close>

datatype fval = FStr string | FInt int

type_synonym file_info = "(string \<times> fval) list"

definition dict_get :: "file_info \<Rightarrow> string \<Rightarrow> fval \<Rightarrow> fval" where
  "dict_get file_info k d = (case map_of file_info k of None \<Rightarrow> d | Some v \<Rightarrow> v)"

record synced_file =
  sf_id :: int
  sf_google_id :: string
  sf_service :: string
  sf_file_name :: fval
  sf_file_path :: fval
  sf_mime_type :: fval
  sf_file_size :: fval
  sf_modified_time :: fval
  sf_silo_file_id :: "string option"
  sf_checksum :: fval
  sf_bucket :: "string option"
  sf_synced_at :: string
  sf_metadata :: "file_info option"

record queue_item =
  q_id :: int
  q_google_id :: string
  q_service :: string
  q_file_name :: fval
  q_file_path :: fval
  q_mime_type :: fval
  q_file_size :: fval
  q_download_url :: "string option"
  q_bucket :: string
  q_status :: string
  q_retry_count :: int
  q_last_error :: "string option"
  q_created_at :: string
  q_last_attempt_at :: "string option"
  q_metadata :: "file_info option"

record database =
  synced_files :: "synced_file list"
  synced_files_seq :: int
  upload_queue :: "queue_item list"
  upload_queue_seq :: int

text \<open>\<^verbatim>\<open>_init_db\<close> on a fresh file: both tables empty, no id handed out yet.\<close>

definition init_db :: database where
  "init_db = \<lparr>synced_files = [], synced_files_seq = 0, upload_queue = [], upload_queue_seq = 0\<rparr>"

text \<open>
  \<^verbatim>\<open>SELECT COUNT(*) FROM synced_files WHERE google_id = ? AND service = ?\<close>, then
  \<^verbatim>\<open>count > 0\<close>.
\<close>

definition is_file_synced :: "database \<Rightarrow> string \<Rightarrow> string \<Rightarrow> bool" where
  "is_file_synced db google_id service =
     (length (filter (\<lambda>r. sf_google_id r = google_id \<and> sf_service r = service)
                (synced_files db)) > 0)"

text \<open>
  \<^verbatim>\<open>INSERT OR REPLACE INTO synced_files\<close>: the table declares \<^verbatim>\<open>google_id TEXT NOT NULL UNIQUE\<close>
  and \<^verbatim>\<open>UNIQUE(google_id, service)\<close>. \<^verbatim>\<open>OR REPLACE\<close> deletes every row that conflicts with the
  new one on either constraint, which is every row with the same \<^verbatim>\<open>google_id\<close>, and then
  inserts the new row under the next \<^verbatim>\<open>AUTOINCREMENT\<close> id.
\<close>

definition mark_file_synced ::
  "database \<Rightarrow> string \<Rightarrow> string \<Rightarrow> file_info \<Rightarrow> string option \<Rightarrow> string option \<Rightarrow> string
     \<Rightarrow> database" where
  "mark_file_synced db google_id service file_info silo_file_id bucket now =
     db\<lparr>synced_files :=
          filter (\<lambda>r. sf_google_id r \<noteq> google_id) (synced_files db) @
          [\<lparr>sf_id = synced_files_seq db + 1,
            sf_google_id = google_id,
            sf_service = service,
            sf_file_name = dict_get file_info ''name'' (FStr ''''),
            sf_file_path = dict_get file_info ''path'' (FStr ''''),
            sf_mime_type = dict_get file_info ''mimeType'' (FStr ''''),
            sf_file_size = dict_get file_info ''size'' (FInt 0),
            sf_modified_time = dict_get file_info ''modifiedTime'' (FStr ''''),
            sf_silo_file_id = silo_file_id,
            sf_checksum = dict_get file_info ''md5Checksum'' (FStr ''''),
            sf_bucket = bucket,
            sf_synced_at = now,
            sf_metadata = Some file_info\<rparr>],
        synced_files_seq := synced_files_seq db + 1\<rparr>"

text \<open>
  \<^verbatim>\<open>INSERT OR REPLACE INTO upload_queue\<close>: the table declares \<^verbatim>\<open>UNIQUE(google_id, service)\<close>,
  so the row of the same pair is deleted first. The statement names no \<^verbatim>\<open>retry_count\<close>,
  \<^verbatim>\<open>last_error\<close> or \<^verbatim>\<open>last_attempt_at\<close>: the new row takes their defaults
  (\<^verbatim>\<open>DEFAULT 0\<close>, \<^verbatim>\<open>NULL\<close>, \<^verbatim>\<open>NULL\<close>).
\<close>

definition add_to_upload_queue ::
  "database \<Rightarrow> string \<Rightarrow> string \<Rightarrow> file_info \<Rightarrow> string \<Rightarrow> string option \<Rightarrow> string
     \<Rightarrow> database" where
  "add_to_upload_queue db google_id service file_info bucket download_url now =
     db\<lparr>upload_queue :=
          filter (\<lambda>r. \<not> (q_google_id r = google_id \<and> q_service r = service)) (upload_queue db) @
          [\<lparr>q_id = upload_queue_seq db + 1,
            q_google_id = google_id,
            q_service = service,
            q_file_name = dict_get file_info ''name'' (FStr ''''),
            q_file_path = dict_get file_info ''path'' (FStr ''''),
            q_mime_type = dict_get file_info ''mimeType'' (FStr ''''),
            q_file_size = dict_get file_info ''size'' (FInt 0),
            q_download_url = download_url,
            q_bucket = bucket,
            q_status = ''pending'',
            q_retry_count = 0,
            q_last_error = None,
            q_created_at = now,
            q_last_attempt_at = None,
            q_metadata = Some file_info\<rparr>],
        upload_queue_seq := upload_queue_seq db + 1\<rparr>"




text \<open>
  \<^verbatim>\<open>update_upload_status\<close>. Python's \<^verbatim>\<open>status == 'completed' and silo_file_id\<close> holds for a
  \<^verbatim>\<open>silo_file_id\<close> that is neither \<^verbatim>\<open>None\<close> nor the empty text. In that branch the row is
  looked up by id; when it exists, \<^verbatim>\<open>self.mark_file_synced\<close> runs (on a connection of its
  own, which it commits), then the row is deleted from the queue. In the other branch the
  row with that id, if any, is updated.
\<close>

definition truthy :: "string option \<Rightarrow> bool" where
  "truthy x = (case x of None \<Rightarrow> False | Some s \<Rightarrow> s \<noteq> [])"

definition select_queue_row :: "database \<Rightarrow> int \<Rightarrow> queue_item option" where
  "select_queue_row db queue_id = find (\<lambda>r. q_id r = queue_id) (upload_queue db)"

definition delete_queue_row :: "database \<Rightarrow> int \<Rightarrow> database" where
  "delete_queue_row db queue_id =
     db\<lparr>upload_queue := filter (\<lambda>r. q_id r \<noteq> queue_id) (upload_queue db)\<rparr>"

definition promote_queue_row :: "database \<Rightarrow> queue_item \<Rightarrow> string option \<Rightarrow> string \<Rightarrow> database" where
  "promote_queue_row db item silo_file_id now =
     mark_file_synced db (q_google_id item) (q_service item)
       (case q_metadata item of None \<Rightarrow> [] | Some file_info \<Rightarrow> file_info)
       silo_file_id (Some (q_bucket item)) now"

definition update_queue_row ::
  "int \<Rightarrow> string \<Rightarrow> string option \<Rightarrow> string \<Rightarrow> queue_item \<Rightarrow> queue_item" where
  "update_queue_row queue_id status error_message now r =
     (if q_id r = queue_id
      then r\<lparr>q_status := status, q_last_error := error_message,
             q_last_attempt_at := Some now, q_retry_count := q_retry_count r + 1\<rparr>
      else r)"

definition update_upload_status ::
  "database \<Rightarrow> int \<Rightarrow> string \<Rightarrow> string option \<Rightarrow> string option \<Rightarrow> string \<Rightarrow> database" where
  "update_upload_status db queue_id status error_message silo_file_id now =
     (if status = ''completed'' \<and> truthy silo_file_id then
        (case select_queue_row db queue_id of
           None \<Rightarrow> db
         | Some item \<Rightarrow>
             delete_queue_row (promote_queue_row db item silo_file_id now) queue_id)
      else
        db\<lparr>upload_queue :=
             map (update_queue_row queue_id status error_message now) (upload_queue db)\<rparr>)"

text \<open>
  The states of the database file that are durable while \<^verbatim>\<open>update_upload_status\<close> runs,
  one per \<^verbatim>\<open>commit\<close>, in order. \<^verbatim>\<open>mark_file_synced\<close> commits on its own connection before
  the \<^verbatim>\<open>DELETE\<close> is issued on the caller's; the \<^verbatim>\<open>DELETE\<close> is committed by the
  \<^verbatim>\<open>conn.commit()\<close> that ends the method. A process that stops between two commits leaves
  the file in the earlier of the two states.
\<close>

definition update_upload_status_commits ::
  "database \<Rightarrow> int \<Rightarrow> string \<Rightarrow> string option \<Rightarrow> string option \<Rightarrow> string \<Rightarrow> database list" where
  "update_upload_status_commits db queue_id status error_message silo_file_id now =
     (if status = ''completed'' \<and> truthy silo_file_id then
        (case select_queue_row db queue_id of
           None \<Rightarrow> [db]
         | Some item \<Rightarrow>
             [promote_queue_row db item silo_file_id now,
              delete_queue_row (promote_queue_row db item silo_file_id now) queue_id])
      else
        [db\<lparr>upload_queue :=
              map (update_queue_row queue_id status error_message now) (upload_queue db)\<rparr>])"

text \<open>
  What the schema guarantees of every stored queue: ids are unique and were handed out
  by the counter, and no two rows share a \<^verbatim>\<open>(google_id, service)\<close> pair.
\<close>

definition queue_ok :: "database \<Rightarrow> bool" where
  "queue_ok db =
     (distinct (map q_id (upload_queue db)) \<and>
      distinct (map (\<lambda>r. (q_google_id r, q_service r)) (upload_queue db)) \<and>
      list_all (\<lambda>r. q_id r \<le> upload_queue_seq db) (upload_queue db))"


definition queue_rows_for :: "database \<Rightarrow> string \<Rightarrow> string \<Rightarrow> queue_item list" where
  "queue_rows_for db google_id service =
     filter (\<lambda>r. q_google_id r = google_id \<and> q_service r = service) (upload_queue db)"

text \<open>The rows a \<^verbatim>\<open>google_id\<close> has in \<^verbatim>\<open>synced_files\<close>, under any service.\<close>

definition synced_rows_of_id :: "database \<Rightarrow> string \<Rightarrow> synced_file list" where
  "synced_rows_of_id db google_id = filter (\<lambda>r. sf_google_id r = google_id) (synced_files db)"

subsection \<open>Example databases\<close>

text \<open>One file waiting in the queue, and the same queue after a failed upload of it.\<close>

definition example_queue_db :: database where
  "example_queue_db =
     add_to_upload_queue init_db ''A'' ''drive'' [(''name'', FStr ''a.txt'')] ''files'' None
       ''2025-10-08T12:00:00''"

definition example_failed_db :: database where
  "example_failed_db =
     update_upload_status example_queue_db 1 ''failed'' (Some ''Timeout error: t'') None
       ''2025-10-08T12:01:00''"


section \<open>The upload client: silo\_client.py\<close>

text \<open>
  \<^verbatim>\<open>SiloUploadClient\<close>. Python floats are taken as real numbers: rounding and overflow are
  not modelled. What the client does to the world is recorded in its state: the clock that
  \<^verbatim>\<open>time.time()\<close> reads, advanced by every \<^verbatim>\<open>time.sleep\<close>, and the list of sleeps and
  \<^verbatim>\<open>requests.post\<close> calls made so far. The lock around the rate-limit window is taken and
  released within each access; one upload runs in one thread.
\<close>

record upload_result =
  success :: bool
  file_id :: "string option"
  file_name :: "string option"
  error_message :: "string option"
  status_code :: "int option"
  retry_after :: "int option"

record client_config =
  server_url :: string
  bucket :: string
  max_retries :: int
  initial_backoff :: real
  max_backoff :: real
  timeout :: int

datatype effect = Sleep real | Post

record client_state =
  rate_limit_until :: real
  uploads_attempted :: int
  uploads_succeeded :: int
  uploads_failed :: int
  bytes_uploaded :: int
  rate_limits_hit :: int
  clock :: real
  effects :: "effect list"

text \<open>
  \<^verbatim>\<open>_calculate_backoff\<close>; \<open>rnd\<close> is the value \<^verbatim>\<open>random.random()\<close> returns in the call.
\<close>

definition calculate_backoff :: "client_config \<Rightarrow> nat \<Rightarrow> real \<Rightarrow> real" where
  "calculate_backoff cfg retry_count rnd =
     (let backoff = min (initial_backoff cfg * 2 ^ retry_count) (max_backoff cfg);
          jitter = backoff * (2 / 10) * (2 * rnd - 1)
      in max (1 / 10) (backoff + jitter))"


definition time_sleep :: "real \<Rightarrow> client_state \<Rightarrow> client_state" where
  "time_sleep d s = s\<lparr>clock := clock s + d, effects := effects s @ [Sleep d]\<rparr>"

definition is_rate_limited :: "client_state \<Rightarrow> bool" where
  "is_rate_limited s = (clock s < rate_limit_until s)"

definition set_rate_limit :: "int \<Rightarrow> client_state \<Rightarrow> client_state" where
  "set_rate_limit retry_after_s s =
     s\<lparr>rate_limit_until := clock s + real_of_int retry_after_s,
       rate_limits_hit := rate_limits_hit s + 1\<rparr>"

definition wait_if_rate_limited :: "client_state \<Rightarrow> client_state" where
  "wait_if_rate_limited s =
     (if is_rate_limited s then
        (let wait_time = max 0 (rate_limit_until s - clock s)
         in if wait_time > 0 then time_sleep wait_time s else s)
      else s)"

text \<open>Python's \<^verbatim>\<open>str\<close> of an integer, as the f-strings of the error messages print it.\<close>

fun str_nat :: "nat \<Rightarrow> string" where
  "str_nat n =
     (if n < 10 then [''0123456789'' ! n]
      else str_nat (n div 10) @ [''0123456789'' ! (n mod 10)])"

declare str_nat.simps [simp del]

definition str_int :: "int \<Rightarrow> string" where
  "str_int i = (if i < 0 then CHR ''-'' # str_nat (nat (- i)) else str_nat (nat i))"

text \<open>
  What one pass through the body of the retry loop meets. \<open>SeekError\<close>: \<^verbatim>\<open>file_stream.seek(0)\<close>
  raises. \<open>ConnectionError\<close>, \<open>Timeout\<close>: \<^verbatim>\<open>requests.post\<close> raises the exception of that
  name. \<open>OtherError\<close>: \<^verbatim>\<open>requests.post\<close> raises any other \<^verbatim>\<open>Exception\<close>. \<open>Response\<close>: it
  returns a response, given by its \<^verbatim>\<open>status_code\<close>, its \<^verbatim>\<open>Retry-After\<close> header, its
  \<^verbatim>\<open>text\<close> and what \<^verbatim>\<open>response.json()\<close> yields. Each exception carries its \<^verbatim>\<open>str(e)\<close>.

  The header is given by what \<^verbatim>\<open>int(response.headers.get('Retry-After', 60))\<close> makes of it:
  absent, an integer, or a value on which \<^verbatim>\<open>int\<close> raises \<^verbatim>\<open>ValueError\<close>.
  \<^verbatim>\<open>response.json()\<close> yields an object with text values, or reading the identifier from it
  raises.
\<close>

datatype retry_after_header = HeaderAbsent | HeaderSeconds int | HeaderInvalid string

datatype json_body = JsonObject "(string \<times> string) list" | JsonError string

datatype attempt_event =
    SeekError string
  | ConnectionError string
  | Timeout string
  | OtherError string
  | Response int retry_after_header string json_body

datatype attempt_outcome = Return upload_result | Continue nat

definition failed_result ::
  "string \<Rightarrow> string \<Rightarrow> int option \<Rightarrow> int option \<Rightarrow> upload_result" where
  "failed_result name msg code ra =
     \<lparr>success = False, file_id = None, file_name = Some name, error_message = Some msg,
      status_code = code, retry_after = ra\<rparr>"

definition count_failure :: "client_state \<Rightarrow> client_state" where
  "count_failure s = s\<lparr>uploads_failed := uploads_failed s + 1\<rparr>"

definition requests_post :: "client_state \<Rightarrow> client_state" where
  "requests_post s = s\<lparr>effects := effects s @ [Post]\<rparr>"

text \<open>
  The branches for a server error, a connection error and a timeout share their shape:
  compute the backoff, increment \<^verbatim>\<open>retry_count\<close>, give up with the branch's result when
  the count exceeds \<^verbatim>\<open>max_retries\<close>, else sleep and \<^verbatim>\<open>continue\<close>.
\<close>

definition retry_with_backoff ::
  "client_config \<Rightarrow> upload_result \<Rightarrow> real \<Rightarrow> nat \<Rightarrow> client_state
     \<Rightarrow> attempt_outcome \<times> client_state" where
  "retry_with_backoff cfg give_up rnd retry_count s =
     (let backoff = calculate_backoff cfg retry_count rnd;
          retry_count' = retry_count + 1
      in if int retry_count' > max_retries cfg then (Return give_up, count_failure s)
         else (Continue retry_count', time_sleep backoff s))"

text \<open>The body of the \<^verbatim>\<open>while\<close> loop of \<^verbatim>\<open>upload_file\<close>, with its \<^verbatim>\<open>except\<close> clauses.\<close>

definition upload_attempt ::
  "client_config \<Rightarrow> string \<Rightarrow> nat \<Rightarrow> attempt_event \<Rightarrow> real \<Rightarrow> nat \<Rightarrow> client_state
     \<Rightarrow> attempt_outcome \<times> client_state" where
  "upload_attempt cfg name file_size ev rnd retry_count s0 =
     (let s = wait_if_rate_limited s0 in
      case ev of
        SeekError msg \<Rightarrow>
          (Return (failed_result name (''Unexpected error: '' @ msg) None None), count_failure s)
      | ConnectionError msg \<Rightarrow>
          retry_with_backoff cfg (failed_result name (''Connection error: '' @ msg) None None)
            rnd retry_count (requests_post s)
      | Timeout msg \<Rightarrow>
          retry_with_backoff cfg (failed_result name (''Timeout error: '' @ msg) None None)
            rnd retry_count (requests_post s)
      | OtherError msg \<Rightarrow>
          (Return (failed_result name (''Unexpected error: '' @ msg) None None),
           count_failure (requests_post s))
      | Response code header text json \<Rightarrow>
          (let s1 = requests_post s in
           if code = 200 then
             (case json of
                JsonError msg \<Rightarrow>
                  (Return (failed_result name (''Unexpected error: '' @ msg) None None),
                   count_failure s1)
              | JsonObject result_data \<Rightarrow>
                  (Return \<lparr>success = True,
                     file_id = (if truthy (map_of result_data ''FileId'')
                                then map_of result_data ''FileId''
                                else map_of result_data ''fileId''),
                     file_name = Some name, error_message = None, status_code = Some 200,
                     retry_after = None\<rparr>,
                   s1\<lparr>uploads_succeeded := uploads_succeeded s1 + 1,
                      bytes_uploaded := bytes_uploaded s1 + int file_size\<rparr>))
           else if code = 429 then
             (case header of
                HeaderInvalid msg \<Rightarrow>
                  (Return (failed_result name (''Unexpected error: '' @ msg) None None),
                   count_failure s1)
              | _ \<Rightarrow>
                  (let retry_after_s = (case header of HeaderSeconds k \<Rightarrow> k | _ \<Rightarrow> 60);
                       s2 = set_rate_limit retry_after_s s1;
                       retry_count' = retry_count + 1
                   in if int retry_count' > max_retries cfg then
                        (Return (failed_result name ''Max retries exceeded due to rate limiting''
                                   (Some 429) (Some retry_after_s)),
                         count_failure s2)
                      else (Continue retry_count', s2)))
           else if code \<in> {500, 502, 503, 504} then
             retry_with_backoff cfg
               (failed_result name (''Server error: '' @ str_int code) (Some code) None)
               rnd retry_count s1
           else
             (Return (failed_result name
                        (''Upload failed with status '' @ str_int code @ '': '' @ take 200 text)
                        (Some code) None),
              count_failure s1)))"

text \<open>
  The \<^verbatim>\<open>while retry_count <= self.max_retries\<close> loop. \<open>events n\<close> and \<open>rnds n\<close> are what
  the \<open>n\<close>-th pass through the body meets and the random number it draws. After the loop
  comes the final \<^verbatim>\<open>Max retries exceeded\<close> return.
\<close>

function upload_loop ::
  "client_config \<Rightarrow> string \<Rightarrow> nat \<Rightarrow> (nat \<Rightarrow> attempt_event) \<Rightarrow> (nat \<Rightarrow> real) \<Rightarrow> nat \<Rightarrow> nat
     \<Rightarrow> client_state \<Rightarrow> upload_result \<times> client_state" where
  "upload_loop cfg name file_size events rnds n retry_count s =
     (if int retry_count \<le> max_retries cfg then
        (case upload_attempt cfg name file_size (events n) (rnds n) retry_count s of
           (Return result, s') \<Rightarrow> (result, s')
         | (Continue retry_count', s') \<Rightarrow>
             upload_loop cfg name file_size events rnds (Suc n) retry_count' s')
      else (failed_result name ''Max retries exceeded'' None None, count_failure s))"
  by pat_completeness auto
termination
  apply (relation "measure (\<lambda>(cfg, name, file_size, events, rnds, n, retry_count, s).
                   nat (max_retries cfg + 1 - int retry_count))")
   apply simp
  apply (auto simp: upload_attempt_def retry_with_backoff_def Let_def
        split: attempt_event.splits if_splits json_body.splits retry_after_header.splits)
  done

declare upload_loop.simps [simp del]

definition upload_file ::
  "client_config \<Rightarrow> string \<Rightarrow> nat \<Rightarrow> (nat \<Rightarrow> attempt_event) \<Rightarrow> (nat \<Rightarrow> real) \<Rightarrow> client_state
     \<Rightarrow> upload_result \<times> client_state" where
  "upload_file cfg name file_size events rnds s =
     upload_loop cfg name file_size events rnds 0 0
       (s\<lparr>uploads_attempted := uploads_attempted s + 1\<rparr>)"

text \<open>The number of network attempts made so far.\<close>

definition posts :: "client_state \<Rightarrow> nat" where
  "posts s = length (filter (\<lambda>e. e = Post) (effects s))"

text \<open>The client as \<^verbatim>\<open>__init__\<close> leaves it, at clock reading \<open>t\<close>, and example configurations.\<close>

definition init_client :: "real \<Rightarrow> client_state" where
  "init_client t =
     \<lparr>rate_limit_until = 0, uploads_attempted = 0, uploads_succeeded = 0, uploads_failed = 0,
      bytes_uploaded = 0, rate_limits_hit = 0, clock = t, effects = []\<rparr>"

definition example_cfg :: client_config where
  "example_cfg =
     \<lparr>server_url = ''http://localhost:5000'', bucket = ''test-bucket'', max_retries = 3,
      initial_backoff = 1, max_backoff = 300, timeout = 300\<rparr>"



text \<open>Example runs: what every pass meets, and the random draws.\<close>

definition example_events_404 :: "nat \<Rightarrow> attempt_event" where
  "example_events_404 n = Response 404 HeaderAbsent ''Not Found'' (JsonError ''Expecting value'')"


definition example_rnds :: "nat \<Rightarrow> real" where
  "example_rnds n = 1 / 2"


definition example_events_bad_json :: "nat \<Rightarrow> attempt_event" where
  "example_events_bad_json n = Response 200 HeaderAbsent ''<html>'' (JsonError ''Expecting value'')"

section \<open>Properties of the ledger\<close>

subsection \<open>Lists of rows\<close>

lemma filter_neq_eq_Nil: "filter (\<lambda>r. f r = g \<and> P r) (filter (\<lambda>r. f r \<noteq> g) xs) = []"
  by (induction xs) auto

lemma filter_neq_eq_Nil': "filter (\<lambda>r. f r = g) (filter (\<lambda>r. f r \<noteq> g) xs) = []"
  by (induction xs) auto

lemma filter_not_pair_Nil:
  "filter (\<lambda>r. f r = g \<and> h r = s) (filter (\<lambda>r. \<not> (f r = g \<and> h r = s)) xs) = []"
  by (induction xs) auto

lemma distinct_map_filter_single:
  "distinct (map f xs) \<Longrightarrow> x \<in> set xs \<Longrightarrow> filter (\<lambda>y. f y = f x) xs = [x]"
proof (induction xs)
  case Nil
  then show ?case by simp
next
  case (Cons a xs)
  show ?case
  proof (cases "a = x")
    case True
    with Cons.prems have "f x \<notin> f ` set xs" by simp
    then have "\<forall>y\<in>set xs. f y \<noteq> f x" by (metis imageI)
    then have "filter (\<lambda>y. f y = f x) xs = []" by (simp add: filter_empty_conv)
    with True show ?thesis by simp
  next
    case False
    with Cons.prems have "x \<in> set xs" "f a \<noteq> f x" by force+
    with Cons show ?thesis by simp
  qed
qed

lemma select_queue_row_Some:
  "select_queue_row db q = Some item \<Longrightarrow> item \<in> set (upload_queue db) \<and> q_id item = q"
  unfolding select_queue_row_def by (auto simp: find_Some_iff)

lemma queue_rows_for_item:
  assumes "queue_ok db" "item \<in> set (upload_queue db)"
  shows "queue_rows_for db (q_google_id item) (q_service item) = [item]"
proof -
  have "distinct (map (\<lambda>r. (q_google_id r, q_service r)) (upload_queue db))"
    using assms(1) by (simp add: queue_ok_def)
  from distinct_map_filter_single[OF this assms(2)]
  show ?thesis by (simp add: queue_rows_for_def)
qed

lemma queue_rows_for_promote [simp]:
  "queue_rows_for (promote_queue_row db item X now) g s = queue_rows_for db g s"
  by (simp add: queue_rows_for_def promote_queue_row_def mark_file_synced_def)

lemma is_file_synced_promote:
  "is_file_synced (promote_queue_row db item X now) (q_google_id item) (q_service item)"
  by (simp add: is_file_synced_def promote_queue_row_def mark_file_synced_def)

lemma is_file_synced_delete [simp]:
  "is_file_synced (delete_queue_row db q) g s = is_file_synced db g s"
  by (simp add: is_file_synced_def delete_queue_row_def)

lemma queue_rows_for_delete:
  "queue_rows_for (delete_queue_row db q) g s = filter (\<lambda>r. q_id r \<noteq> q) (queue_rows_for db g s)"
  by (auto simp: queue_rows_for_def delete_queue_row_def intro: filter_cong)

lemma update_upload_status_commits_last:
  "last (update_upload_status_commits db q st e sid now) = update_upload_status db q st e sid now"
  by (simp add: update_upload_status_commits_def update_upload_status_def split: option.splits)

text \<open>
  Claim C1, as amended. Let \<open>item\<close> be the queue row with id \<open>q\<close>, in a queue that
  satisfies the schema's uniqueness constraints, and let \<open>X\<close> be a non-empty
  \<^verbatim>\<open>silo_file_id\<close>. Then \<^verbatim>\<open>update_upload_status(q, 'completed', silo_file_id=X)\<close> commits
  twice: first the promotion (the synced record is written while the queue row is still
  there), then the deletion. After the call \<^verbatim>\<open>is_file_synced\<close> holds for the row's pair and
  the pair has no queue row. In the state durable between the two commits the pair has
  both its synced record and its queue row.
\<close>

theorem update_upload_status_completed:
  assumes "queue_ok db" and "select_queue_row db q = Some item" and "truthy X"
  shows "update_upload_status_commits db q ''completed'' e X now =
           [promote_queue_row db item X now, update_upload_status db q ''completed'' e X now] \<and>
         is_file_synced (update_upload_status db q ''completed'' e X now)
           (q_google_id item) (q_service item) \<and>
         queue_rows_for (update_upload_status db q ''completed'' e X now)
           (q_google_id item) (q_service item) = [] \<and>
         is_file_synced (promote_queue_row db item X now) (q_google_id item) (q_service item) \<and>
         queue_rows_for (promote_queue_row db item X now) (q_google_id item) (q_service item) = [item]"
proof -
  from assms(2) have item: "item \<in> set (upload_queue db)" "q_id item = q"
    using select_queue_row_Some by blast+
  have rows: "queue_rows_for db (q_google_id item) (q_service item) = [item]"
    using queue_rows_for_item[OF assms(1) item(1)] .
  have upd: "update_upload_status db q ''completed'' e X now =
        delete_queue_row (promote_queue_row db item X now) q"
    using assms(2,3) by (simp add: update_upload_status_def)
  have c1: "update_upload_status_commits db q ''completed'' e X now =
           [promote_queue_row db item X now, update_upload_status db q ''completed'' e X now]"
    using assms(2,3) by (simp add: update_upload_status_commits_def upd)
  have c2: "is_file_synced (update_upload_status db q ''completed'' e X now)
           (q_google_id item) (q_service item)"
    by (simp add: upd is_file_synced_promote)
  have c3: "queue_rows_for (update_upload_status db q ''completed'' e X now)
           (q_google_id item) (q_service item) = []"
    by (simp add: upd queue_rows_for_delete rows item(2))
  show ?thesis using c1 c2 c3 rows by (simp add: is_file_synced_promote)
qed

lemma example_queue_db_simp:
  "example_queue_db = \<lparr>synced_files = [], synced_files_seq = 0,
     upload_queue = [\<lparr>q_id = 1, q_google_id = ''A'', q_service = ''drive'',
       q_file_name = FStr ''a.txt'', q_file_path = FStr [], q_mime_type = FStr [],
       q_file_size = FInt 0, q_download_url = None, q_bucket = ''files'',
       q_status = ''pending'', q_retry_count = 0, q_last_error = None,
       q_created_at = ''2025-10-08T12:00:00'', q_last_attempt_at = None,
       q_metadata = Some [(''name'', FStr ''a.txt'')]\<rparr>], upload_queue_seq = 1\<rparr>"
  by (simp add: example_queue_db_def add_to_upload_queue_def init_db_def dict_get_def)

theorem update_upload_status_completed_witness:
  "queue_ok example_queue_db \<and> truthy (Some ''silo-1'') \<and>
   length (update_upload_status_commits example_queue_db 1 ''completed'' None (Some ''silo-1'')
      ''2025-10-08T12:05:00'') = 2 \<and>
   is_file_synced (update_upload_status example_queue_db 1 ''completed'' None (Some ''silo-1'')
      ''2025-10-08T12:05:00'') ''A'' ''drive'' \<and>
   queue_rows_for (update_upload_status example_queue_db 1 ''completed'' None (Some ''silo-1'')
      ''2025-10-08T12:05:00'') ''A'' ''drive'' = []"
proof -
  have ok: "queue_ok example_queue_db"
    by (simp add: example_queue_db_simp queue_ok_def)
  have sel: "select_queue_row example_queue_db 1 = Some (hd (upload_queue example_queue_db))"
    by (simp add: example_queue_db_simp select_queue_row_def)
  have tr: "truthy (Some ''silo-1'')" by (simp add: truthy_def)
  show ?thesis
    using update_upload_status_completed[OF ok sel tr, of None "''2025-10-08T12:05:00''"] ok tr
    by (simp add: example_queue_db_simp)
qed

text \<open>
  Claim C1 as stated fails: for the queue holding the single row of file \<open>A\<close>, the state
  durable after the first commit of the completing call differs from the final one and
  holds a synced record and a queue row for \<open>(A, drive)\<close> at once.
\<close>

theorem update_upload_status_atomic_counterexample:
  "is_file_synced
     (hd (update_upload_status_commits example_queue_db 1 ''completed'' None (Some ''silo-1'')
            ''2025-10-08T12:05:00'')) ''A'' ''drive'' \<and>
   length (queue_rows_for
     (hd (update_upload_status_commits example_queue_db 1 ''completed'' None (Some ''silo-1'')
            ''2025-10-08T12:05:00'')) ''A'' ''drive'') = 1 \<and>
   hd (update_upload_status_commits example_queue_db 1 ''completed'' None (Some ''silo-1'')
            ''2025-10-08T12:05:00'') \<noteq>
   update_upload_status example_queue_db 1 ''completed'' None (Some ''silo-1'')
            ''2025-10-08T12:05:00''"
  by (simp add: example_queue_db_simp update_upload_status_commits_def update_upload_status_def
      truthy_def select_queue_row_def promote_queue_row_def mark_file_synced_def
      delete_queue_row_def is_file_synced_def queue_rows_for_def)

lemma example_failed_db_simp:
  "example_failed_db = \<lparr>synced_files = [], synced_files_seq = 0,
     upload_queue = [\<lparr>q_id = 1, q_google_id = ''A'', q_service = ''drive'',
       q_file_name = FStr ''a.txt'', q_file_path = FStr [], q_mime_type = FStr [],
       q_file_size = FInt 0, q_download_url = None, q_bucket = ''files'',
       q_status = ''failed'', q_retry_count = 1, q_last_error = Some ''Timeout error: t'',
       q_created_at = ''2025-10-08T12:00:00'', q_last_attempt_at = Some ''2025-10-08T12:01:00'',
       q_metadata = Some [(''name'', FStr ''a.txt'')]\<rparr>], upload_queue_seq = 1\<rparr>"
  by (simp add: example_failed_db_def example_queue_db_simp update_upload_status_def
      update_queue_row_def)

subsection \<open>Enqueueing\<close>

text \<open>
  Claim C2, as amended. After \<^verbatim>\<open>add_to_upload_queue\<close> for a pair, whatever the queue held
  before, the pair has exactly one queue row: the one just written, with status
  \<^verbatim>\<open>pending\<close> and \<^verbatim>\<open>retry_count\<close> \<open>0\<close> (also a fresh id, no \<^verbatim>\<open>last_error\<close> and no
  \<^verbatim>\<open>last_attempt_at\<close>). The retry count of a row that was already there is not kept.
\<close>
theorem add_to_upload_queue_resets_retry_count:
  "queue_rows_for (add_to_upload_queue db google_id service file_info bucket_name download_url now)
     google_id service =
   [\<lparr>q_id = upload_queue_seq db + 1,
     q_google_id = google_id,
     q_service = service,
     q_file_name = dict_get file_info ''name'' (FStr ''''),
     q_file_path = dict_get file_info ''path'' (FStr ''''),
     q_mime_type = dict_get file_info ''mimeType'' (FStr ''''),
     q_file_size = dict_get file_info ''size'' (FInt 0),
     q_download_url = download_url,
     q_bucket = bucket_name,
     q_status = ''pending'',
     q_retry_count = 0,
     q_last_error = None,
     q_created_at = now,
     q_last_attempt_at = None,
     q_metadata = Some file_info\<rparr>]"
  by (simp add: queue_rows_for_def add_to_upload_queue_def filter_not_pair_Nil)

theorem add_to_upload_queue_resets_retry_count_witness:
  "map q_retry_count (queue_rows_for example_failed_db ''A'' ''drive'') = [1] \<and>
   map q_status (queue_rows_for
      (add_to_upload_queue example_failed_db ''A'' ''drive'' [(''name'', FStr ''a.txt'')]
         ''files'' None ''2025-10-08T12:02:00'') ''A'' ''drive'') = [''pending''] \<and>
   map q_retry_count (queue_rows_for
      (add_to_upload_queue example_failed_db ''A'' ''drive'' [(''name'', FStr ''a.txt'')]
         ''files'' None ''2025-10-08T12:02:00'') ''A'' ''drive'') = [0]"
  using add_to_upload_queue_resets_retry_count[of example_failed_db "''A''" "''drive''"
      "[(''name'', FStr ''a.txt'')]" "''files''" None "''2025-10-08T12:02:00''"]
  by (simp add: example_failed_db_simp queue_rows_for_def)

text \<open>
  Claim C2 as stated fails: the queued file \<open>A\<close> has failed once, so its row has
  \<^verbatim>\<open>retry_count\<close> \<open>1\<close>; enqueueing \<open>A\<close> again leaves a row whose \<^verbatim>\<open>retry_count\<close> is not \<open>1\<close>.
\<close>

theorem add_to_upload_queue_retry_count_counterexample:
  "map q_retry_count (queue_rows_for example_failed_db ''A'' ''drive'') = [1] \<and>
   map q_retry_count (queue_rows_for
      (add_to_upload_queue example_failed_db ''A'' ''drive'' [(''name'', FStr ''a.txt'')]
         ''files'' None ''2025-10-08T12:02:00'') ''A'' ''drive'') \<noteq> [1]"
  by (simp add: example_failed_db_simp queue_rows_for_def add_to_upload_queue_def)

subsection \<open>Marking as synced\<close>



text \<open>
  Claim C9. \<^verbatim>\<open>google_id\<close> is unique in \<^verbatim>\<open>synced_files\<close> across services: after marking
  an id under service \<open>s1\<close> and then under another service \<open>s2\<close>, the id has exactly one
  record, \<^verbatim>\<open>is_file_synced\<close> holds for \<open>s2\<close> and no longer for \<open>s1\<close>.
\<close>

theorem mark_file_synced_replaces_other_service:
  assumes "s1 \<noteq> s2"
  shows "length (synced_rows_of_id
           (mark_file_synced (mark_file_synced db google_id s1 info1 target1 bucket1 now1)
              google_id s2 info2 target2 bucket2 now2) google_id) = 1 \<and>
         is_file_synced
           (mark_file_synced (mark_file_synced db google_id s1 info1 target1 bucket1 now1)
              google_id s2 info2 target2 bucket2 now2) google_id s2 \<and>
         \<not> is_file_synced
           (mark_file_synced (mark_file_synced db google_id s1 info1 target1 bucket1 now1)
              google_id s2 info2 target2 bucket2 now2) google_id s1"
  using assms
  by (simp add: synced_rows_of_id_def is_file_synced_def mark_file_synced_def
      filter_neq_eq_Nil filter_neq_eq_Nil')

theorem mark_file_synced_replaces_other_service_witness:
  "''drive'' \<noteq> ''photos'' \<and>
   is_file_synced (mark_file_synced init_db ''X1'' ''drive'' [] (Some ''silo-1'') (Some ''files'')
      ''2025-10-08T12:00:00'') ''X1'' ''drive'' \<and>
   length (synced_rows_of_id
     (mark_file_synced
        (mark_file_synced init_db ''X1'' ''drive'' [] (Some ''silo-1'') (Some ''files'')
           ''2025-10-08T12:00:00'')
        ''X1'' ''photos'' [] (Some ''silo-2'') (Some ''files'') ''2025-10-08T12:30:00'') ''X1'') = 1 \<and>
   is_file_synced
     (mark_file_synced
        (mark_file_synced init_db ''X1'' ''drive'' [] (Some ''silo-1'') (Some ''files'')
           ''2025-10-08T12:00:00'')
        ''X1'' ''photos'' [] (Some ''silo-2'') (Some ''files'') ''2025-10-08T12:30:00'')
     ''X1'' ''photos'' \<and>
   \<not> is_file_synced
     (mark_file_synced
        (mark_file_synced init_db ''X1'' ''drive'' [] (Some ''silo-1'') (Some ''files'')
           ''2025-10-08T12:00:00'')
        ''X1'' ''photos'' [] (Some ''silo-2'') (Some ''files'') ''2025-10-08T12:30:00'')
     ''X1'' ''drive''"
proof -
  have ne: "''drive'' \<noteq> ''photos''" by simp
  have first: "is_file_synced (mark_file_synced init_db ''X1'' ''drive'' [] (Some ''silo-1'')
      (Some ''files'') ''2025-10-08T12:00:00'') ''X1'' ''drive''"
    by (simp add: is_file_synced_def mark_file_synced_def init_db_def)
  show ?thesis
    using mark_file_synced_replaces_other_service[OF ne, of init_db "''X1''" "[]" "Some ''silo-1''"
      "Some ''files''" "''2025-10-08T12:00:00''" "[]" "Some ''silo-2''" "Some ''files''"
      "''2025-10-08T12:30:00''"] ne first
    by simp
qed

subsection \<open>The queue's constraints are kept by every operation\<close>

lemma queue_ok_init: "queue_ok init_db"
  by (simp add: queue_ok_def init_db_def)

lemma queue_ok_mark_file_synced:
  "queue_ok db \<Longrightarrow> queue_ok (mark_file_synced db g s fi t b now)"
  by (simp add: queue_ok_def mark_file_synced_def)

lemma queue_ok_add_to_upload_queue:
  assumes "queue_ok db"
  shows "queue_ok (add_to_upload_queue db g s fi b d now)"
proof -
  let ?keep = "filter (\<lambda>r. \<not> (q_google_id r = g \<and> q_service r = s)) (upload_queue db)"
  from assms have d1: "distinct (map q_id ?keep)"
    and d2: "distinct (map (\<lambda>r. (q_google_id r, q_service r)) ?keep)"
    and le: "\<forall>r\<in>set ?keep. q_id r \<le> upload_queue_seq db"
    by (auto simp: queue_ok_def distinct_map_filter list_all_iff)
  from le have fresh: "upload_queue_seq db + 1 \<notin> q_id ` set ?keep" by force
  have pair: "(g, s) \<notin> (\<lambda>r. (q_google_id r, q_service r)) ` set ?keep" by auto
  show ?thesis
    using d1 d2 le fresh pair
    by (auto simp: queue_ok_def add_to_upload_queue_def list_all_iff)
qed

lemma update_queue_row_keeps [simp]:
  "q_id (update_queue_row q st e now r) = q_id r"
  "q_google_id (update_queue_row q st e now r) = q_google_id r"
  "q_service (update_queue_row q st e now r) = q_service r"
  "q_created_at (update_queue_row q st e now r) = q_created_at r"
  by (simp_all add: update_queue_row_def)

lemma queue_ok_delete_queue_row: "queue_ok db \<Longrightarrow> queue_ok (delete_queue_row db q)"
  by (auto simp: queue_ok_def delete_queue_row_def distinct_map_filter list_all_iff)

lemma queue_ok_promote_queue_row:
  "queue_ok db \<Longrightarrow> queue_ok (promote_queue_row db item X now)"
  by (simp add: promote_queue_row_def queue_ok_mark_file_synced)

lemma update_upload_status_else:
  assumes "\<not> (st = ''completed'' \<and> truthy sid)"
  shows "update_upload_status db q st e sid now =
         db\<lparr>upload_queue := map (update_queue_row q st e now) (upload_queue db)\<rparr>"
  unfolding update_upload_status_def by (rule if_not_P) (rule assms)

lemma queue_ok_update_upload_status:
  assumes "queue_ok db"
  shows "queue_ok (update_upload_status db q st e sid now)"
proof (cases "st = ''completed'' \<and> truthy sid")
  case True
  show ?thesis
  proof (cases "select_queue_row db q")
    case None
    with True assms show ?thesis by (simp add: update_upload_status_def)
  next
    case (Some item)
    have "queue_ok (delete_queue_row (promote_queue_row db item sid now) q)"
      by (rule queue_ok_delete_queue_row, rule queue_ok_promote_queue_row, rule assms)
    with True Some show ?thesis by (simp add: update_upload_status_def)
  qed
next
  case False
  show ?thesis
    using assms
    by (simp add: update_upload_status_else[OF False] queue_ok_def comp_def list_all_iff)
qed


subsection \<open>Listing pending uploads\<close>













section \<open>Properties of the upload client\<close>

subsection \<open>Backoff\<close>











subsection \<open>Effects of the steps\<close>

lemma posts_simps [simp]:
  "posts (time_sleep d s) = posts s"
  "posts (requests_post s) = posts s + 1"
  "posts (count_failure s) = posts s"
  "posts (set_rate_limit k s) = posts s"
  "posts (s\<lparr>uploads_attempted := a\<rparr>) = posts s"
  "posts (s\<lparr>uploads_succeeded := b, bytes_uploaded := c\<rparr>) = posts s"
  by (simp_all add: posts_def time_sleep_def requests_post_def count_failure_def
      set_rate_limit_def)

lemma posts_wait [simp]: "posts (wait_if_rate_limited s) = posts s"
  by (simp add: wait_if_rate_limited_def Let_def)

lemma retry_with_backoff_cases:
  "retry_with_backoff cfg r rnd rc s =
     (if int rc + 1 > max_retries cfg then (Return r, count_failure s)
      else (Continue (Suc rc), time_sleep (calculate_backoff cfg rc rnd) s))"
  by (simp add: retry_with_backoff_def Let_def)

lemma upload_attempt_posts:
  "posts (snd (upload_attempt cfg name sz ev rnd rc s)) \<le> posts s + 1"
  by (simp add: upload_attempt_def retry_with_backoff_cases Let_def
      split: attempt_event.splits json_body.splits retry_after_header.splits)


subsection \<open>The retry loop\<close>


lemma upload_loop_Return:
  "int rc \<le> max_retries cfg \<Longrightarrow>
   upload_attempt cfg name sz (events n) (rnds n) rc s = (Return r, s') \<Longrightarrow>
   upload_loop cfg name sz events rnds n rc s = (r, s')"
  by (simp add: upload_loop.simps)







subsection \<open>Terminal client errors\<close>

text \<open>
  Claim C4. When the first pass receives a response whose status is not 200, not 429 and
  none of 500, 502, 503, 504 (so in particular for every non-2xx status other than those),
  \<^verbatim>\<open>upload_file\<close> returns at once, whatever \<open>max_retries \<ge> 0\<close> is: the result is a failure
  whose message embeds the status and the first 200 characters of the response body and
  whose \<^verbatim>\<open>status_code\<close> is the status; exactly one network attempt was made.
\<close>

theorem upload_file_client_error:
  assumes "0 \<le> max_retries cfg"
    and "events 0 = Response code header body json"
    and "code \<noteq> 200" and "code \<noteq> 429" and "code \<notin> {500, 502, 503, 504}"
  shows "fst (upload_file cfg name sz events rnds s) =
           \<lparr>success = False, file_id = None, file_name = Some name,
            error_message =
              Some (''Upload failed with status '' @ str_int code @ '': '' @ take 200 body),
            status_code = Some code, retry_after = None\<rparr> \<and>
         posts (snd (upload_file cfg name sz events rnds s)) = posts s + 1 \<and>
         uploads_failed (snd (upload_file cfg name sz events rnds s)) = uploads_failed s + 1"
proof -
  let ?s = "s\<lparr>uploads_attempted := uploads_attempted s + 1\<rparr>"
  let ?r = "failed_result name
              (''Upload failed with status '' @ str_int code @ '': '' @ take 200 body)
              (Some code) None"
  have att: "upload_attempt cfg name sz (events 0) (rnds 0) 0 ?s =
          (Return ?r, count_failure (requests_post (wait_if_rate_limited ?s)))"
    using assms(2-5) by (simp add: upload_attempt_def Let_def)
  have "upload_loop cfg name sz events rnds 0 0 ?s =
          (?r, count_failure (requests_post (wait_if_rate_limited ?s)))"
    using assms(1) att by (intro upload_loop_Return) simp_all
  then have eq: "upload_file cfg name sz events rnds s =
          (?r, count_failure (requests_post (wait_if_rate_limited ?s)))"
    by (simp add: upload_file_def)
  have "uploads_failed (count_failure (requests_post (wait_if_rate_limited ?s))) =
          uploads_failed s + 1"
    by (simp add: count_failure_def requests_post_def wait_if_rate_limited_def time_sleep_def
        Let_def)
  with eq show ?thesis by (simp add: failed_result_def)
qed

theorem upload_file_client_error_witness:
  "0 \<le> max_retries example_cfg \<and>
   example_events_404 0 = Response 404 HeaderAbsent ''Not Found'' (JsonError ''Expecting value'') \<and>
   (404::int) \<noteq> 200 \<and> (404::int) \<noteq> 429 \<and> (404::int) \<notin> {500, 502, 503, 504} \<and>
   error_message (fst (upload_file example_cfg ''a.txt'' 10 example_events_404 example_rnds
      (init_client 0))) = Some ''Upload failed with status 404: Not Found'' \<and>
   status_code (fst (upload_file example_cfg ''a.txt'' 10 example_events_404 example_rnds
      (init_client 0))) = Some 404 \<and>
   \<not> success (fst (upload_file example_cfg ''a.txt'' 10 example_events_404 example_rnds
      (init_client 0))) \<and>
   posts (snd (upload_file example_cfg ''a.txt'' 10 example_events_404 example_rnds
      (init_client 0))) = 1"
proof -
  have h1: "0 \<le> max_retries example_cfg" by (simp add: example_cfg_def)
  have h2: "example_events_404 0 =
      Response 404 HeaderAbsent ''Not Found'' (JsonError ''Expecting value'')"
    by (simp add: example_events_404_def)
  have h3: "(404::int) \<noteq> 200" "(404::int) \<noteq> 429" "(404::int) \<notin> {500, 502, 503, 504}"
    by simp_all
  have p: "posts (init_client 0) = 0" by (simp add: posts_def init_client_def)
  have str: "str_int 404 = ''404''" by (simp add: str_int_def str_nat.simps)
  from upload_file_client_error[where cfg = example_cfg and events = example_events_404
      and code = 404 and header = HeaderAbsent and body = "''Not Found''"
      and json = "JsonError ''Expecting value''" and name = "''a.txt''" and sz = 10
      and rnds = example_rnds and s = "init_client 0", OF h1 h2 h3]
    h1 h2 h3 p str
  show ?thesis by simp
qed

subsection \<open>Rate limiting\<close>




subsection \<open>Unexpected exceptions\<close>

text \<open>
  Claim C10. A pass in which an exception other than a connection error or a timeout is
  raised (\<^verbatim>\<open>seek\<close> fails, \<^verbatim>\<open>requests.post\<close> raises something else, the body of a 200 is not
  JSON, the \<^verbatim>\<open>Retry-After\<close> of a 429 is not an integer) ends the call at once: the result
  is a failure whose message is \<^verbatim>\<open>Unexpected error: \<close> followed by the exception's text,
  with no \<^verbatim>\<open>status_code\<close>; one failure is counted, \<^verbatim>\<open>retry_count\<close> is not incremented and
  the pass does not sleep beyond the rate-limit pre-check.
\<close>

theorem upload_attempt_unexpected_error:
  assumes "events n = SeekError msg \<or> events n = OtherError msg \<or>
           events n = Response 200 header body (JsonError msg) \<or>
           events n = Response 429 (HeaderInvalid msg) body json"
    and "int rc \<le> max_retries cfg"
  shows "fst (upload_attempt cfg name sz (events n) (rnds n) rc s) =
           Return \<lparr>success = False, file_id = None, file_name = Some name,
                   error_message = Some (''Unexpected error: '' @ msg),
                   status_code = None, retry_after = None\<rparr> \<and>
         upload_loop cfg name sz events rnds n rc s =
           (\<lparr>success = False, file_id = None, file_name = Some name,
             error_message = Some (''Unexpected error: '' @ msg),
             status_code = None, retry_after = None\<rparr>,
            snd (upload_attempt cfg name sz (events n) (rnds n) rc s)) \<and>
         uploads_failed (snd (upload_attempt cfg name sz (events n) (rnds n) rc s)) =
           uploads_failed s + 1 \<and>
         posts (snd (upload_attempt cfg name sz (events n) (rnds n) rc s)) \<le> posts s + 1 \<and>
         filter (\<lambda>e. e \<noteq> Post) (effects (snd (upload_attempt cfg name sz (events n) (rnds n) rc s))) =
           filter (\<lambda>e. e \<noteq> Post) (effects (wait_if_rate_limited s))"
proof -
  let ?w = "wait_if_rate_limited s"
  let ?r = "failed_result name (''Unexpected error: '' @ msg) None None"
  have w: "uploads_failed ?w = uploads_failed s"
    by (simp add: wait_if_rate_limited_def time_sleep_def Let_def)
  have att: "upload_attempt cfg name sz (events n) (rnds n) rc s = (Return ?r, count_failure ?w) \<or>
             upload_attempt cfg name sz (events n) (rnds n) rc s =
               (Return ?r, count_failure (requests_post ?w))"
    using assms(1) by (auto simp: upload_attempt_def Let_def)
  then have a: "fst (upload_attempt cfg name sz (events n) (rnds n) rc s) = Return ?r"
    by auto
  then have "upload_attempt cfg name sz (events n) (rnds n) rc s =
          (Return ?r, snd (upload_attempt cfg name sz (events n) (rnds n) rc s))"
    by (metis prod.collapse)
  with assms(2) have b: "upload_loop cfg name sz events rnds n rc s =
          (?r, snd (upload_attempt cfg name sz (events n) (rnds n) rc s))"
    by (rule upload_loop_Return)
  from att w have c: "uploads_failed (snd (upload_attempt cfg name sz (events n) (rnds n) rc s)) =
           uploads_failed s + 1"
    by (auto simp: count_failure_def requests_post_def)
  have d: "posts (snd (upload_attempt cfg name sz (events n) (rnds n) rc s)) \<le> posts s + 1"
    by (rule upload_attempt_posts)
  from att have e: "filter (\<lambda>e. e \<noteq> Post)
        (effects (snd (upload_attempt cfg name sz (events n) (rnds n) rc s))) =
           filter (\<lambda>e. e \<noteq> Post) (effects ?w)"
    by (auto simp: count_failure_def requests_post_def)
  from a b c d e show ?thesis by (simp add: failed_result_def)
qed

theorem upload_attempt_unexpected_error_witness:
  "example_events_bad_json 0 = Response 200 HeaderAbsent ''<html>'' (JsonError ''Expecting value'') \<and>
   int 0 \<le> max_retries example_cfg \<and>
   upload_file example_cfg ''a.txt'' 10 example_events_bad_json example_rnds (init_client 0) =
     (\<lparr>success = False, file_id = None, file_name = Some ''a.txt'',
       error_message = Some ''Unexpected error: Expecting value'',
       status_code = None, retry_after = None\<rparr>,
      (init_client 0)\<lparr>uploads_attempted := 1, uploads_failed := 1, effects := [Post]\<rparr>)"
proof -
  have h1: "example_events_bad_json 0 =
      Response 200 HeaderAbsent ''<html>'' (JsonError ''Expecting value'')"
    by (simp add: example_events_bad_json_def)
  have h2: "int 0 \<le> max_retries example_cfg" by (simp add: example_cfg_def)
  let ?s = "(init_client 0)\<lparr>uploads_attempted := uploads_attempted (init_client 0) + 1\<rparr>"
  have d: "example_events_bad_json 0 = SeekError ''Expecting value'' \<or>
           example_events_bad_json 0 = OtherError ''Expecting value'' \<or>
           example_events_bad_json 0 = Response 200 HeaderAbsent ''<html>'' (JsonError ''Expecting value'') \<or>
           example_events_bad_json 0 = Response 429 (HeaderInvalid ''Expecting value'') ''<html>'' (JsonError ''Expecting value'')"
    using h1 by simp
  have s: "snd (upload_attempt example_cfg ''a.txt'' 10 (example_events_bad_json 0)
              (example_rnds 0) 0 ?s) =
           (init_client 0)\<lparr>uploads_attempted := 1, uploads_failed := 1, effects := [Post]\<rparr>"
    by (simp add: h1 upload_attempt_def wait_if_rate_limited_def is_rate_limited_def
        init_client_def count_failure_def requests_post_def)
  from upload_attempt_unexpected_error[where cfg = example_cfg
      and events = example_events_bad_json and n = 0 and msg = "''Expecting value''"
      and header = HeaderAbsent and body = "''<html>''" and json = "JsonError ''Expecting value''"
      and name = "''a.txt''" and sz = 10 and rnds = example_rnds and rc = 0 and s = ?s,
      OF d h2] h1 h2 s
  show ?thesis by (simp add: upload_file_def)
qed

end
